theory Spec2Isabelle
  imports Complex_Main "HOL-Library.Word"
begin

unbundle bit_operations_syntax

section \<open>Python values\<close>

text \<open>
  The handler of \<^verbatim>\<open>runpod_handler.py\<close> receives a job that the host decoded from JSON.
  A Python value is one of the JSON shapes, or a bytes object (what \<^verbatim>\<open>base64.b64decode\<close>
  returns and what the pipeline is expected to return). A dict is an association list
  with string keys, read with \<open>map_of\<close>. A \<^verbatim>\<open>str\<close> is a list of characters; a character
  above \<open>0x7f\<close> stands for a non-ASCII code point.
\<close>

type_synonym byte = "8 word"

datatype pyval =
    PNone
  | PBool bool
  | PInt int
  | PFloat real
  | PStr string
  | PBytes "byte list"
  | PList "pyval list"
  | PDict "(string \<times> pyval) list"

datatype py_error =
    KeyError
  | TypeError
  | AttributeError
  | NameError
  | ValueError
  | BinasciiError
  | UnicodeDecodeError
  | ModelError string

text \<open>\<^verbatim>\<open>not v\<close> is \<open>\<not> truthy v\<close>: Python's truth value of the built-in types.\<close>

fun truthy :: "pyval \<Rightarrow> bool" where
  "truthy PNone = False"
| "truthy (PBool b) = b"
| "truthy (PInt i) = (i \<noteq> 0)"
| "truthy (PFloat r) = (r \<noteq> 0)"
| "truthy (PStr s) = (s \<noteq> [])"
| "truthy (PBytes bs) = (bs \<noteq> [])"
| "truthy (PList xs) = (xs \<noteq> [])"
| "truthy (PDict d) = (d \<noteq> [])"

text \<open>
  \<^verbatim>\<open>v[k]\<close> with a string key: a dict raises KeyError when the key is absent; every other
  value modelled here raises TypeError (not subscriptable, or indices must be integers).
\<close>

fun getitem :: "pyval \<Rightarrow> string \<Rightarrow> py_error + pyval" where
  "getitem (PDict d) k = (case map_of d k of None \<Rightarrow> Inl KeyError | Some v \<Rightarrow> Inr v)"
| "getitem _ k = Inl TypeError"

text \<open>
  \<^verbatim>\<open>v.get(k, default)\<close>: only a dict has the method; the other values raise AttributeError.
\<close>

fun dict_get :: "pyval \<Rightarrow> string \<Rightarrow> pyval \<Rightarrow> py_error + pyval" where
  "dict_get (PDict d) k dflt = (case map_of d k of None \<Rightarrow> Inr dflt | Some v \<Rightarrow> Inr v)"
| "dict_get _ k dflt = Inl AttributeError"

section \<open>The base64 module\<close>

text \<open>
  \<^verbatim>\<open>base64.b64encode\<close> and \<^verbatim>\<open>base64.b64decode\<close> belong to the Python standard library,
  not to this repository. They are modelled after CPython's \<^verbatim>\<open>binascii\<close>:
  the encoder emits four characters of the standard alphabet for every three bytes and
  pads the last group with \<^verbatim>\<open>=\<close>; the decoder is the non-validating one
  (\<^verbatim>\<open>validate=False\<close>, the default the handler uses), which skips every character
  outside the alphabet and stops at a complete padding sequence.
\<close>

definition byte_of_char :: "char \<Rightarrow> byte" where
  "byte_of_char c = of_nat (of_char c)"

definition char_of_byte :: "byte \<Rightarrow> char" where
  "char_of_byte b = char_of (unat b)"

definition table_b2a_base64 :: "byte list" where
  "table_b2a_base64 =
     map byte_of_char ''ABCDEFGHIJKLMNOPQRSTUVWXYZabcdefghijklmnopqrstuvwxyz0123456789+/''"

definition BASE64_PAD :: byte where
  "BASE64_PAD = byte_of_char CHR ''=''"

text \<open>The character of a six-bit value.\<close>

definition b2a :: "byte \<Rightarrow> byte" where
  "b2a s = table_b2a_base64 ! unat s"

text \<open>
  The six-bit value of a character; a character outside the alphabet gets a value
  of 64 or more, as in CPython's table.
\<close>

definition table_a2b_base64 :: "byte \<Rightarrow> byte" where
  "table_a2b_base64 c =
     (case map_of (zip table_b2a_base64 (map of_nat [0..<64])) c of
        Some s \<Rightarrow> s
      | None \<Rightarrow> 255)"

fun b2a_base64 :: "byte list \<Rightarrow> byte list" where
  "b2a_base64 (a # b # c # rest) =
     [b2a (drop_bit 2 a),
      b2a (push_bit 4 (a AND 3) OR drop_bit 4 b),
      b2a (push_bit 2 (b AND 15) OR drop_bit 6 c),
      b2a (c AND 63)] @ b2a_base64 rest"
| "b2a_base64 [a, b] =
     [b2a (drop_bit 2 a),
      b2a (push_bit 4 (a AND 3) OR drop_bit 4 b),
      b2a (push_bit 2 (b AND 15)),
      BASE64_PAD]"
| "b2a_base64 [a] =
     [b2a (drop_bit 2 a),
      b2a (push_bit 4 (a AND 3)),
      BASE64_PAD,
      BASE64_PAD]"
| "b2a_base64 [] = []"

text \<open>
  The decoding loop keeps the position in the current group of four (\<open>quad_pos\<close>), the
  bits left over from the previous character (\<open>leftchar\<close>), the number of padding
  characters seen since the last alphabet character (\<open>pads\<close>) and the bytes written so
  far. At the end of the input an unfinished group raises \<^verbatim>\<open>binascii.Error\<close>.
\<close>

fun a2b_loop :: "nat \<Rightarrow> byte \<Rightarrow> nat \<Rightarrow> byte list \<Rightarrow> byte list \<Rightarrow> py_error + byte list" where
  "a2b_loop quad_pos leftchar pads out [] =
     (if quad_pos \<noteq> 0 then Inl BinasciiError else Inr out)"
| "a2b_loop quad_pos leftchar pads out (c # cs) =
     (if c = BASE64_PAD then
        (if quad_pos \<ge> 2 then
           (if quad_pos + (pads + 1) \<ge> 4 then Inr out
            else a2b_loop quad_pos leftchar (pads + 1) out cs)
         else a2b_loop quad_pos leftchar pads out cs)
      else
        (let this_ch = table_a2b_base64 c in
         if this_ch \<ge> 64 then a2b_loop quad_pos leftchar pads out cs
         else if quad_pos = 0 then a2b_loop 1 this_ch 0 out cs
         else if quad_pos = 1 then
           a2b_loop 2 (this_ch AND 15) 0
             (out @ [push_bit 2 leftchar OR drop_bit 4 this_ch]) cs
         else if quad_pos = 2 then
           a2b_loop 3 (this_ch AND 3) 0
             (out @ [push_bit 4 leftchar OR drop_bit 2 this_ch]) cs
         else
           a2b_loop 0 0 0 (out @ [push_bit 6 leftchar OR this_ch]) cs))"

definition a2b_base64 :: "byte list \<Rightarrow> py_error + byte list" where
  "a2b_base64 cs = a2b_loop 0 0 0 [] cs"

text \<open>
  \<^verbatim>\<open>str.encode('ascii')\<close> inside \<^verbatim>\<open>b64decode\<close>: a string with a non-ASCII character
  raises ValueError.
\<close>

definition encode_ascii :: "string \<Rightarrow> py_error + byte list" where
  "encode_ascii s =
     (if \<forall>c \<in> set s. (of_char c :: nat) < 128 then Inr (map byte_of_char s)
      else Inl ValueError)"

text \<open>
  \<^verbatim>\<open>bytes.decode('utf-8')\<close>, on the one-byte sequences only: a byte below \<open>0x80\<close> is its
  own character. The multi-byte sequences are not decoded here (the result is the
  decoding error for all of them); \<open>b2a_base64\<close> never produces one.
\<close>

definition decode_utf8 :: "byte list \<Rightarrow> py_error + string" where
  "decode_utf8 bs =
     (if \<forall>b \<in> set bs. b < 128 then Inr (map char_of_byte bs)
      else Inl UnicodeDecodeError)"

fun b64decode :: "pyval \<Rightarrow> py_error + byte list" where
  "b64decode (PStr s) =
     (case encode_ascii s of Inl e \<Rightarrow> Inl e | Inr cs \<Rightarrow> a2b_base64 cs)"
| "b64decode (PBytes cs) = a2b_base64 cs"
| "b64decode _ = Inl TypeError"

fun b64encode :: "pyval \<Rightarrow> py_error + byte list" where
  "b64encode (PBytes bs) = Inr (b2a_base64 bs)"
| "b64encode _ = Inl TypeError"

section \<open>The process and the handler\<close>

text \<open>
  The two collaborators outside the file: the constructor of \<^verbatim>\<open>KokoroV1Pipeline\<close>
  (\<open>None\<close> when it returns an instance, \<open>Some e\<close> when it raises) and the method
  \<^verbatim>\<open>tts\<close> of the instance, a function of its two arguments that either raises or
  returns a value, and that leaves its arguments as they are.
\<close>

record env =
  KokoroV1Pipeline :: "bool \<Rightarrow> py_error option"
  tts :: "pyval \<Rightarrow> byte list \<Rightarrow> py_error + pyval"

text \<open>
  What the process does to the outside is a trace of events. A pipeline instance is
  named by the position of its construction in the trace.
\<close>

datatype event =
    Construct bool
  | Print string
  | TtsCall nat pyval "byte list"

record world =
  pipeline :: "nat option"
  trace :: "event list"

definition error_response :: pyval where
  "error_response = PDict [(''error'', PStr ''speaker_wav_base64 is a required field.'')]"

definition default_text :: pyval where
  "default_text = PStr ''Hello, this is a test.''"

text \<open>
  \<^verbatim>\<open>handler(job)\<close>, lines 11 to 35. The result is the outcome (the returned value, or the
  exception that leaves the function), the job object as it is after the call, and
  the world after the call.
\<close>

definition handler :: "env \<Rightarrow> world \<Rightarrow> pyval \<Rightarrow> (py_error + pyval) \<times> pyval \<times> world" where
  "handler E w job =
     (case getitem job ''input'' of
        Inl e \<Rightarrow> (Inl e, job, w)
      | Inr job_input \<Rightarrow>
     (case dict_get job_input ''text'' default_text of
        Inl e \<Rightarrow> (Inl e, job, w)
      | Inr text \<Rightarrow>
     (case dict_get job_input ''speaker_wav_base64'' PNone of
        Inl e \<Rightarrow> (Inl e, job, w)
      | Inr speaker_wav_base64 \<Rightarrow>
     if \<not> truthy speaker_wav_base64 then (Inr error_response, job, w)
     else
     (case b64decode speaker_wav_base64 of
        Inl e \<Rightarrow> (Inl e, job, w)
      | Inr speaker_wav_bytes \<Rightarrow>
     (case pipeline w of
        None \<Rightarrow> (Inl NameError, job, w)
      | Some p \<Rightarrow>
     (let w' = w\<lparr>trace := trace w @ [TtsCall p text speaker_wav_bytes]\<rparr> in
      case tts E text speaker_wav_bytes of
        Inl e \<Rightarrow> (Inl e, job, w')
      | Inr wav_bytes \<Rightarrow>
     (case b64encode wav_bytes of
        Inl e \<Rightarrow> (Inl e, job, w')
      | Inr encoded \<Rightarrow>
     (case decode_utf8 encoded of
        Inl e \<Rightarrow> (Inl e, job, w')
      | Inr wav_base64 \<Rightarrow>
        (Inr (PDict [(''audio_base64'', PStr wav_base64)]), job, w')))))))))"

text \<open>
  The module's top level, lines 8 and 9: the one call of the constructor, binding the
  global \<^verbatim>\<open>pipeline\<close>, then the message. A constructor that raises ends the import,
  and with it the process, before any job is served.
\<close>

definition module_init :: "env \<Rightarrow> world \<Rightarrow> py_error option \<times> world" where
  "module_init E w =
     (let w1 = w\<lparr>trace := trace w @ [Construct True]\<rparr> in
      case KokoroV1Pipeline E True of
        Some e \<Rightarrow> (Some e, w1)
      | None \<Rightarrow>
         (let w2 = w1\<lparr>pipeline := Some (length (trace w))\<rparr> in
          (None, w2\<lparr>trace := trace w2 @ [Print ''TTS Pipeline Initialized.'']\<rparr>)))"

text \<open>
  \<^verbatim>\<open>runpod.serverless.start\<close>, line 38: the host hands the jobs to the handler one after
  the other and collects the outcomes; an exception of one job does not stop the worker.
\<close>

fun serve :: "env \<Rightarrow> world \<Rightarrow> pyval list \<Rightarrow> (py_error + pyval) list \<times> world" where
  "serve E w [] = ([], w)"
| "serve E w (job # jobs) =
     (case handler E w job of
        (r, _, w') \<Rightarrow> (case serve E w' jobs of (rs, w'') \<Rightarrow> (r # rs, w'')))"

definition initial_world :: world where
  "initial_world = \<lparr>pipeline = None, trace = []\<rparr>"

definition process :: "env \<Rightarrow> pyval list \<Rightarrow> (py_error + pyval) list \<times> world" where
  "process E jobs =
     (case module_init E initial_world of
        (Some e, w) \<Rightarrow> ([], w)
      | (None, w) \<Rightarrow> serve E w jobs)"

text \<open>
  A concrete collaborator and a concrete world, for running the definitions: a pipeline
  whose constructor succeeds and whose \<^verbatim>\<open>tts\<close> answers with the reference audio it was
  given, and the world as it is once the module has been imported.
\<close>

definition echo_env :: env where
  "echo_env =
     \<lparr>KokoroV1Pipeline = (\<lambda>use_gpu. None),
      tts = (\<lambda>text speaker_wav. Inr (PBytes speaker_wav))\<rparr>"

definition ready_world :: world where
  "ready_world =
     \<lparr>pipeline = Some 0, trace = [Construct True, Print ''TTS Pipeline Initialized.'']\<rparr>"

text \<open>
  The strings that are base64 text: a string is valid when it decodes and the decoded
  bytes encode to the very same string, that is, when \<^verbatim>\<open>base64.b64encode\<close> can produce it.
\<close>

definition valid_base64 :: "string \<Rightarrow> bool" where
  "valid_base64 s =
     (case b64decode (PStr s) of
        Inl e \<Rightarrow> False
      | Inr bs \<Rightarrow> map char_of_byte (b2a_base64 bs) = s)"

text \<open>Reading the trace: the constructions, and the instance a call of \<^verbatim>\<open>tts\<close> went to.\<close>

fun is_construction :: "event \<Rightarrow> bool" where
  "is_construction (Construct use_gpu) = True"
| "is_construction _ = False"

fun call_instance :: "event \<Rightarrow> nat option" where
  "call_instance (TtsCall p text speaker_wav) = Some p"
| "call_instance _ = None"

section \<open>Facts about the base64 model\<close>

lemma length_table: "length table_b2a_base64 = 64"
  by (simp add: table_b2a_base64_def)

lemma distinct_table: "distinct table_b2a_base64"
  by (simp add: table_b2a_base64_def byte_of_char_def)

lemma pad_notin_table: "BASE64_PAD \<notin> set table_b2a_base64"
  by (simp add: table_b2a_base64_def byte_of_char_def BASE64_PAD_def)

lemma table_ascii: "c \<in> set table_b2a_base64 \<Longrightarrow> c < 128"
  by (auto simp add: table_b2a_base64_def byte_of_char_def)

lemma pad_ascii: "BASE64_PAD < 128"
  by (simp add: byte_of_char_def BASE64_PAD_def)

lemma b2a_in_table: "s < 64 \<Longrightarrow> b2a s \<in> set table_b2a_base64"
  by (simp add: b2a_def length_table word_less_nat_alt)

lemma b2a_not_pad: "s < 64 \<Longrightarrow> b2a s \<noteq> BASE64_PAD"
  using b2a_in_table pad_notin_table by metis

lemma b2a_ascii: "s < 64 \<Longrightarrow> b2a s < 128"
  using b2a_in_table table_ascii by blast

lemma a2b_b2a:
  assumes "s < 64" shows "table_a2b_base64 (b2a s) = s"
proof -
  have n: "unat s < 64" using assms by (simp add: word_less_nat_alt)
  have "map_of (zip table_b2a_base64 (map of_nat [0..<64] :: byte list)) (table_b2a_base64 ! unat s)
          = Some ((map of_nat [0..<64] :: byte list) ! unat s)"
    by (rule map_of_zip_nth) (use n in \<open>simp_all add: length_table distinct_table\<close>)
  then show ?thesis using n by (simp add: table_a2b_base64_def b2a_def)
qed

lemma and3: "(a::byte) AND 3 = take_bit 2 a"
  by (simp add: take_bit_eq_mask mask_eq_exp_minus_1)
lemma and15: "(a::byte) AND 15 = take_bit 4 a"
  by (simp add: take_bit_eq_mask mask_eq_exp_minus_1)
lemma and63: "(a::byte) AND 63 = take_bit 6 a"
  by (simp add: take_bit_eq_mask mask_eq_exp_minus_1)

text \<open>Two bytes are equal when their eight bits are.\<close>

lemma byte_eqI:
  assumes "bit a 0 = bit b 0" "bit a 1 = bit b 1" "bit a 2 = bit b 2" "bit a 3 = bit b 3"
    "bit a 4 = bit b 4" "bit a 5 = bit b 5" "bit a 6 = bit b 6" "bit a 7 = bit b 7"
  shows "a = (b::byte)"
proof (rule bit_word_eqI)
  fix n
  assume "n < LENGTH(8)"
  then have "n \<in> {0, 1, 2, 3, 4, 5, 6, 7}"
    by auto
  then show "bit a n = bit b n"
    using assms by auto
qed

lemma byte_high_bit: "8 \<le> n \<Longrightarrow> \<not> bit (a::byte) n"
  by (auto dest: bit_imp_le_length)

lemma lt64I: 
  assumes "\<not> bit s 6" "\<not> bit s 7" shows "(s::byte) < 64"
proof -
  have "take_bit 6 s = s"
    by (rule byte_eqI) (use assms in \<open>simp_all add: bit_simps\<close>)
  then have "s AND mask 6 = s" by (simp add: take_bit_eq_mask)
  moreover have "s AND mask 6 < 2 ^ 6" by (rule and_mask_less') simp
  ultimately show ?thesis by simp
qed

lemma sextet1: "drop_bit 2 (a::byte) < 64"
  by (rule lt64I) (simp_all add: bit_simps byte_high_bit)
lemma sextet2: "push_bit 4 (a AND 3) OR drop_bit 4 (b::byte) < 64"
  unfolding and3 by (rule lt64I) (simp_all add: bit_simps byte_high_bit)
lemma sextet2': "push_bit 4 ((a::byte) AND 3) < 64"
  unfolding and3 by (rule lt64I) (simp_all add: bit_simps byte_high_bit)
lemma sextet3: "push_bit 2 (b AND 15) OR drop_bit 6 (c::byte) < 64"
  unfolding and15 by (rule lt64I) (simp_all add: bit_simps byte_high_bit)
lemma sextet3': "push_bit 2 ((b::byte) AND 15) < 64"
  unfolding and15 by (rule lt64I) (simp_all add: bit_simps byte_high_bit)
lemma sextet4: "(c::byte) AND 63 < 64"
  unfolding and63 by (rule lt64I) (simp_all add: bit_simps byte_high_bit)

lemma bits1: "push_bit 2 (drop_bit 2 a) OR drop_bit 4 (push_bit 4 (a AND 3) OR drop_bit 4 b) = (a::byte)"
  unfolding and3
  by (rule byte_eqI) (simp_all add: bit_simps)

lemma bits2: "push_bit 4 ((push_bit 4 (a AND 3) OR drop_bit 4 b) AND 15) OR drop_bit 2 (push_bit 2 (b AND 15) OR drop_bit 6 c) = (b::byte)"
  unfolding and3 and15
  by (rule byte_eqI) (simp_all add: bit_simps)

lemma bits3: "push_bit 6 ((push_bit 2 (b AND 15) OR drop_bit 6 c) AND 3) OR (c AND 63) = (c::byte)"
  unfolding and3 and15 and63
  by (rule byte_eqI) (simp_all add: bit_simps)

lemma bits2': "push_bit 4 ((push_bit 4 (a AND 3) OR drop_bit 4 b) AND 15) OR drop_bit 2 (push_bit 2 (b AND 15)) = (b::byte)"
  unfolding and3 and15
  by (rule byte_eqI) (simp_all add: bit_simps)

lemma bits1': "push_bit 2 (drop_bit 2 a) OR drop_bit 4 (push_bit 4 (a AND 3)) = (a::byte)"
  unfolding and3
  by (rule byte_eqI) (simp_all add: bit_simps)

text \<open>One step of the decoding loop on a character of the alphabet.\<close>

lemma a2b_loop_b2a:
  assumes "s < 64"
  shows "a2b_loop q l p out (b2a s # cs) =
     (if q = 0 then a2b_loop 1 s 0 out cs
      else if q = 1 then a2b_loop 2 (s AND 15) 0 (out @ [push_bit 2 l OR drop_bit 4 s]) cs
      else if q = 2 then a2b_loop 3 (s AND 3) 0 (out @ [push_bit 4 l OR drop_bit 2 s]) cs
      else a2b_loop 0 0 0 (out @ [push_bit 6 l OR s]) cs)"
proof -
  have "\<not> 64 \<le> s" using assms by simp
  then show ?thesis
    by (simp add: a2b_b2a[OF assms] b2a_not_pad[OF assms] Let_def)
qed

lemma a2b_loop_pad:
  "a2b_loop q l p out (BASE64_PAD # cs) =
     (if q \<ge> 2 then (if q + (p + 1) \<ge> 4 then Inr out else a2b_loop q l (p + 1) out cs)
      else a2b_loop q l p out cs)"
  by simp

lemma a2b_loop_quad:
  assumes "s1 < 64" "s2 < 64" "s3 < 64" "s4 < 64"
  shows "a2b_loop 0 l p out (b2a s1 # b2a s2 # b2a s3 # b2a s4 # cs) =
         a2b_loop 0 0 0
           (out @ [push_bit 2 s1 OR drop_bit 4 s2,
                   push_bit 4 (s2 AND 15) OR drop_bit 2 s3,
                   push_bit 6 (s3 AND 3) OR s4]) cs"
  by (simp add: a2b_loop_b2a assms del: a2b_loop.simps)

lemma a2b_loop_triple:
  assumes "s1 < 64" "s2 < 64" "s3 < 64"
  shows "a2b_loop 0 l p out (b2a s1 # b2a s2 # b2a s3 # BASE64_PAD # cs) =
         Inr (out @ [push_bit 2 s1 OR drop_bit 4 s2,
                     push_bit 4 (s2 AND 15) OR drop_bit 2 s3])"
  by (simp add: a2b_loop_b2a a2b_loop_pad assms del: a2b_loop.simps)

lemma a2b_loop_pair:
  assumes "s1 < 64" "s2 < 64"
  shows "a2b_loop 0 l p out (b2a s1 # b2a s2 # BASE64_PAD # BASE64_PAD # cs) =
         Inr (out @ [push_bit 2 s1 OR drop_bit 4 s2])"
  by (simp add: a2b_loop_b2a a2b_loop_pad assms del: a2b_loop.simps)

lemma a2b_loop_b2a_base64: "a2b_loop 0 l p out (b2a_base64 bs) = Inr (out @ bs)"
proof (induction bs arbitrary: l p out rule: b2a_base64.induct)
  case (1 a b c rest)
  have "a2b_loop 0 l p out (b2a_base64 (a # b # c # rest)) =
        a2b_loop 0 0 0
          (out @ [push_bit 2 (drop_bit 2 a) OR drop_bit 4 (push_bit 4 (a AND 3) OR drop_bit 4 b),
                  push_bit 4 ((push_bit 4 (a AND 3) OR drop_bit 4 b) AND 15) OR
                    drop_bit 2 (push_bit 2 (b AND 15) OR drop_bit 6 c),
                  push_bit 6 ((push_bit 2 (b AND 15) OR drop_bit 6 c) AND 3) OR (c AND 63)])
          (b2a_base64 rest)"
    by (simp only: b2a_base64.simps append_Cons append_Nil
          a2b_loop_quad [OF sextet1 sextet2 sextet3 sextet4])
  also have "\<dots> = a2b_loop 0 0 0 (out @ [a, b, c]) (b2a_base64 rest)"
    by (simp only: bits1 bits2 bits3)
  also have "\<dots> = Inr ((out @ [a, b, c]) @ rest)"
    by (rule "1.IH")
  finally show ?case by simp
next
  case (2 a b)
  have "a2b_loop 0 l p out (b2a_base64 [a, b]) =
        Inr (out @ [push_bit 2 (drop_bit 2 a) OR drop_bit 4 (push_bit 4 (a AND 3) OR drop_bit 4 b),
                    push_bit 4 ((push_bit 4 (a AND 3) OR drop_bit 4 b) AND 15) OR
                      drop_bit 2 (push_bit 2 (b AND 15))])"
    by (simp only: b2a_base64.simps a2b_loop_triple [OF sextet1 sextet2 sextet3'])
  then show ?case by (simp only: bits1 bits2')
next
  case (3 a)
  have "a2b_loop 0 l p out (b2a_base64 [a]) =
        Inr (out @ [push_bit 2 (drop_bit 2 a) OR drop_bit 4 (push_bit 4 (a AND 3))])"
    by (simp only: b2a_base64.simps a2b_loop_pair [OF sextet1 sextet2'])
  then show ?case by (simp only: bits1')
next
  case 4
  show ?case by simp
qed

lemma a2b_b2a_base64: "a2b_base64 (b2a_base64 bs) = Inr bs"
  by (simp add: a2b_base64_def a2b_loop_b2a_base64)

lemma b2a_base64_ascii: "c \<in> set (b2a_base64 bs) \<Longrightarrow> c < 128"
  by (induction bs arbitrary: c rule: b2a_base64.induct)
     (auto simp add: pad_ascii b2a_ascii sextet1 sextet2 sextet2' sextet3 sextet3' sextet4
           simp del: push_bit_and)

lemma byte_of_char_of_byte: "b < 128 \<Longrightarrow> byte_of_char (char_of_byte b) = b"
  by (simp add: byte_of_char_def char_of_byte_def of_char_of word_less_nat_alt)

lemma of_char_char_of_byte: "b < 128 \<Longrightarrow> (of_char (char_of_byte b) :: nat) < 128"
  by (simp add: char_of_byte_def of_char_of word_less_nat_alt)

lemma decode_utf8_b2a_base64: "decode_utf8 (b2a_base64 bs) = Inr (map char_of_byte (b2a_base64 bs))"
  by (simp add: decode_utf8_def b2a_base64_ascii)

lemma encode_ascii_decoded:
  assumes "\<forall>b \<in> set cs. b < 128"
  shows "encode_ascii (map char_of_byte cs) = Inr cs"
proof -
  have "map byte_of_char (map char_of_byte cs) = cs"
    using assms by (induction cs) (simp_all add: byte_of_char_of_byte)
  then show ?thesis using assms by (simp add: encode_ascii_def of_char_char_of_byte)
qed

lemma b64decode_b64encode:
  "b64decode (PStr (map char_of_byte (b2a_base64 bs))) = Inr bs"
  by (simp add: encode_ascii_decoded b2a_base64_ascii a2b_b2a_base64)

lemma encode_ascii_b2a_base64:
  "encode_ascii (map char_of_byte (b2a_base64 bs)) = Inr (b2a_base64 bs)"
  by (simp add: encode_ascii_decoded b2a_base64_ascii)

lemma valid_base64_iff: "valid_base64 s \<longleftrightarrow> (\<exists>B. s = map char_of_byte (b2a_base64 B))"
  by (auto simp: valid_base64_def encode_ascii_b2a_base64 a2b_b2a_base64 split: sum.splits)

text \<open>Concrete encodings, computed.\<close>

lemma b2a_base64_Hi: "b2a_base64 [72, 105] = [83, 71, 107, 61]"
  by code_simp

lemma chars_SGk: "map char_of_byte [83, 71, 107, 61] = ''SGk=''"
  by code_simp

lemma decode_RIFF: "b64decode (PStr ''UklGRg=='') = Inr [82, 73, 70, 70]"
  by code_simp

lemma encode_RIFF: "map char_of_byte (b2a_base64 [82, 73, 70, 70]) = ''UklGRg==''"
  by code_simp

section \<open>The job without an input\<close>

text \<open>
  Claim C10. A job that is a mapping without the key \<^verbatim>\<open>input\<close> makes the handler raise
  KeyError at line 15: no response is returned, the job is as it was, and the world
  is as it was, so nothing was validated, decoded or synthesised.
\<close>

theorem handler_missing_input:
  "map_of d ''input'' = None \<Longrightarrow> handler E w (PDict d) = (Inl KeyError, PDict d, w)"
  by (simp add: handler_def)

theorem handler_missing_input_witness:
  "map_of [(''id'', PStr ''job-1'')] ''input'' = None \<and>
   handler echo_env ready_world (PDict [(''id'', PStr ''job-1'')])
     = (Inl KeyError, PDict [(''id'', PStr ''job-1'')], ready_world)"
  using handler_missing_input [of "[(''id'', PStr ''job-1'')]" echo_env ready_world]
  by simp

section \<open>The job without a reference voice\<close>

text \<open>
  Claim C1. When the input mapping of a job has no key \<^verbatim>\<open>speaker_wav_base64\<close>, or has it
  with a falsy value (None, the empty string, zero, an empty container), the handler
  returns exactly the mapping with the one key \<^verbatim>\<open>error\<close> and the message
  "speaker_wav_base64 is a required field.", and the world after the call is the world
  before it: its trace has no new call of \<^verbatim>\<open>tts\<close>.
\<close>

theorem handler_missing_speaker_wav:
  assumes "getitem job ''input'' = Inr (PDict i)"
    and "case map_of i ''speaker_wav_base64'' of None \<Rightarrow> True | Some v \<Rightarrow> \<not> truthy v"
  shows "handler E w job =
           (Inr (PDict [(''error'', PStr ''speaker_wav_base64 is a required field.'')]), job, w)"
  using assms by (simp add: handler_def error_response_def split: option.splits)

theorem handler_missing_speaker_wav_witness:
  "getitem (PDict [(''input'', PDict [])]) ''input'' = Inr (PDict [])
   \<and> map_of ([] :: (string \<times> pyval) list) ''speaker_wav_base64'' = None
   \<and> handler echo_env ready_world (PDict [(''input'', PDict [])])
       = (Inr (PDict [(''error'', PStr ''speaker_wav_base64 is a required field.'')]),
          PDict [(''input'', PDict [])], ready_world)
   \<and> map_of [(''text'', PStr ''Hi''), (''speaker_wav_base64'', PStr [])] ''speaker_wav_base64''
       = Some (PStr [])
   \<and> \<not> truthy (PStr [])
   \<and> handler echo_env ready_world
         (PDict [(''input'', PDict [(''text'', PStr ''Hi''), (''speaker_wav_base64'', PStr [])])])
       = (Inr (PDict [(''error'', PStr ''speaker_wav_base64 is a required field.'')]),
          PDict [(''input'', PDict [(''text'', PStr ''Hi''), (''speaker_wav_base64'', PStr [])])],
          ready_world)"
  using handler_missing_speaker_wav
      [of "PDict [(''input'', PDict [])]" "[]" echo_env ready_world]
    handler_missing_speaker_wav
      [of "PDict [(''input'', PDict [(''text'', PStr ''Hi''), (''speaker_wav_base64'', PStr [])])]"
          "[(''text'', PStr ''Hi''), (''speaker_wav_base64'', PStr [])]" echo_env ready_world]
  by simp

section \<open>The encoding is lossless\<close>

text \<open>
  Claim C4. For every byte sequence \<open>B\<close>: \<^verbatim>\<open>b64encode\<close> accepts it, the encoded bytes
  decode as UTF-8 (they are ASCII), and \<^verbatim>\<open>b64decode\<close> of the resulting text, or of the
  encoded bytes themselves, gives back exactly \<open>B\<close>. So what line 31 writes, line 24
  reads back unchanged.
\<close>

theorem base64_roundtrip:
  "b64encode (PBytes B) = Inr (b2a_base64 B)
   \<and> decode_utf8 (b2a_base64 B) = Inr (map char_of_byte (b2a_base64 B))
   \<and> b64decode (PStr (map char_of_byte (b2a_base64 B))) = Inr B
   \<and> b64decode (PBytes (b2a_base64 B)) = Inr B"
  by (simp add: decode_utf8_b2a_base64 encode_ascii_b2a_base64 a2b_b2a_base64)

theorem base64_roundtrip_witness:
  "b64encode (PBytes [72, 105]) = Inr [83, 71, 107, 61]
   \<and> decode_utf8 [83, 71, 107, 61] = Inr ''SGk=''
   \<and> b64decode (PStr ''SGk='') = Inr [72, 105]
   \<and> b64decode (PBytes [83, 71, 107, 61]) = Inr [72, 105]"
  using base64_roundtrip [of "[72, 105]"]
  unfolding b2a_base64_Hi chars_SGk .

section \<open>The well-formed job\<close>

text \<open>
  Claim C2. Take a job whose input mapping holds a non-empty string under
  \<^verbatim>\<open>speaker_wav_base64\<close> that \<^verbatim>\<open>b64decode\<close> decodes to the bytes \<open>speaker_wav_bytes\<close>
  (every valid encoding does, by the round trip), let \<open>text\<close> be what line 17 reads,
  and let \<^verbatim>\<open>tts\<close> return the bytes \<open>B\<close> for these two arguments. Then the handler returns
  the mapping with the one key \<^verbatim>\<open>audio_base64\<close>, its value decodes to exactly \<open>B\<close>, and
  the trace grows by exactly one call of \<^verbatim>\<open>tts\<close>, with \<open>text\<close> and \<open>speaker_wav_bytes\<close>.
\<close>

theorem handler_success:
  assumes "getitem job ''input'' = Inr (PDict i)"
    and "map_of i ''speaker_wav_base64'' = Some (PStr s)"
    and "s \<noteq> []"
    and "b64decode (PStr s) = Inr speaker_wav_bytes"
    and "dict_get (PDict i) ''text'' (PStr ''Hello, this is a test.'') = Inr text"
    and "pipeline w = Some p"
    and "tts E text speaker_wav_bytes = Inr (PBytes B)"
  shows "handler E w job =
           (Inr (PDict [(''audio_base64'', PStr (map char_of_byte (b2a_base64 B)))]),
            job,
            w\<lparr>trace := trace w @ [TtsCall p text speaker_wav_bytes]\<rparr>)
         \<and> b64decode (PStr (map char_of_byte (b2a_base64 B))) = Inr B"
proof -
  have "dict_get (PDict i) ''speaker_wav_base64'' PNone = Inr (PStr s)"
    using assms(2) by simp
  moreover have "truthy (PStr s)"
    using assms(3) by simp
  moreover have "b64decode (PStr (map char_of_byte (b2a_base64 B))) = Inr B"
    by (simp add: encode_ascii_b2a_base64 a2b_b2a_base64)
  ultimately show ?thesis
    using assms(1,4,5,6,7)
    by (simp add: handler_def default_text_def decode_utf8_b2a_base64
             Let_def del: dict_get.simps b64decode.simps)
qed

theorem handler_success_witness:
  "handler echo_env ready_world
     (PDict [(''input'', PDict [(''text'', PStr ''Hello world''),
                                (''speaker_wav_base64'', PStr ''UklGRg=='')])])
   = (Inr (PDict [(''audio_base64'', PStr ''UklGRg=='')]),
      PDict [(''input'', PDict [(''text'', PStr ''Hello world''),
                                (''speaker_wav_base64'', PStr ''UklGRg=='')])],
      ready_world\<lparr>trace := trace ready_world
                      @ [TtsCall 0 (PStr ''Hello world'') [82, 73, 70, 70]]\<rparr>)
   \<and> b64decode (PStr ''UklGRg=='') = Inr [82, 73, 70, 70]"
  using handler_success
    [of "PDict [(''input'', PDict [(''text'', PStr ''Hello world''),
                                   (''speaker_wav_base64'', PStr ''UklGRg=='')])]"
        "[(''text'', PStr ''Hello world''), (''speaker_wav_base64'', PStr ''UklGRg=='')]"
        "''UklGRg==''" "[82, 73, 70, 70]" "PStr ''Hello world''" ready_world 0 echo_env
        "[82, 73, 70, 70]"]
    decode_RIFF encode_RIFF
  by (simp add: echo_env_def ready_world_def del: b64decode.simps)

end
